theory Spec2Isabelle
  imports Main "HOL-Library.Sublist"
begin

section \<open>The execute_action websockets request\<close>

text \<open>
  A shallow embedding of \<^verbatim>\<open>ExecuteActionWebsocketsRequest\<close>
  (\<^verbatim>\<open>python/tk_desktop2/websockets/requests/toolkit_actions/execute_action.py\<close>):
  its constructor, the resolution loop of \<^verbatim>\<open>execute_with_context\<close> and the thread
  payload \<^verbatim>\<open>_execute\<close>.
\<close>

subsection \<open>Python values and exceptions\<close>

text \<open>
  The payload arrives from javascript, so its values are the values of decoded JSON:
  \<^verbatim>\<open>None\<close>, booleans, integers, strings, lists and dictionaries with string keys.
  A dictionary is an association list read with \<^const>\<open>map_of\<close>.
\<close>

datatype pyval =
    PNone
  | PBool bool
  | PInt int
  | PStr string
  | PList "pyval list"
  | PDict "(string \<times> pyval) list"

text \<open>
  The exceptions the three methods can raise. \<^verbatim>\<open>ValueError\<close> and
  \<^verbatim>\<open>RuntimeError\<close> are raised by the source itself and carry their message; the
  others come from subscripting.
\<close>

datatype exn =
    ValueError string
  | RuntimeError string
  | IndexError
  | KeyError string
  | TypeError

type_synonym params = "(string \<times> pyval) list"

text \<open>\<^verbatim>\<open>d.get(k)\<close>: the value, or \<^verbatim>\<open>None\<close> when the key is absent.\<close>

definition dict_get :: "params \<Rightarrow> string \<Rightarrow> pyval" where
  "dict_get d k = (case map_of d k of None \<Rightarrow> PNone | Some v \<Rightarrow> v)"

text \<open>
  \<^verbatim>\<open>v[k]\<close> for a string key \<open>k\<close>: a dictionary answers or raises
  \<^verbatim>\<open>KeyError\<close>; a list or a string wants an integer index and every other value
  is not subscriptable, both \<^verbatim>\<open>TypeError\<close>.
\<close>

fun getitem_key :: "pyval \<Rightarrow> string \<Rightarrow> exn + pyval" where
  "getitem_key (PDict d) k = (case map_of d k of None \<Rightarrow> Inl (KeyError k) | Some v \<Rightarrow> Inr v)"
| "getitem_key _ k = Inl TypeError"

text \<open>
  \<^verbatim>\<open>v[0]\<close>: the first element of a list or string, \<^verbatim>\<open>IndexError\<close> when it is
  empty; a dictionary with string keys has no key \<^verbatim>\<open>0\<close>; anything else is not
  subscriptable.
\<close>

fun getitem_0 :: "pyval \<Rightarrow> exn + pyval" where
  "getitem_0 (PList []) = Inl IndexError"
| "getitem_0 (PList (x # xs)) = Inr x"
| "getitem_0 (PStr []) = Inl IndexError"
| "getitem_0 (PStr (c # cs)) = Inr (PStr [c])"
| "getitem_0 (PDict d) = Inl (KeyError ''0'')"
| "getitem_0 _ = Inl TypeError"

text \<open>What a \<^verbatim>\<open>for e in v\<close> iterates over.\<close>

fun iter_items :: "pyval \<Rightarrow> exn + pyval list" where
  "iter_items (PList xs) = Inr xs"
| "iter_items (PStr s) = Inr (map (\<lambda>c. PStr [c]) s)"
| "iter_items (PDict d) = Inr (map (\<lambda>kv. PStr (fst kv)) d)"
| "iter_items _ = Inl TypeError"

text \<open>\<^verbatim>\<open>[e["id"] for e in es]\<close>, stopping at the first element that raises.\<close>

fun ids_of :: "pyval list \<Rightarrow> exn + pyval list" where
  "ids_of [] = Inr []"
| "ids_of (e # es) =
     (case getitem_key e ''id'' of
        Inl x \<Rightarrow> Inl x
      | Inr i \<Rightarrow> (case ids_of es of Inl x \<Rightarrow> Inl x | Inr js \<Rightarrow> Inr (i # js)))"

text \<open>\<^verbatim>\<open>isinstance(v, dict)\<close>\<close>

fun is_dict :: "pyval \<Rightarrow> bool" where
  "is_dict (PDict d) = True"
| "is_dict _ = False"

subsection \<open>Commands, configurations and the request\<close>

text \<open>
  An \<^verbatim>\<open>ExternalCommand\<close> is opaque apart from the two attributes and the two
  methods the request uses. A method returns its output (\<open>Inr\<close>) or raises an
  \<^verbatim>\<open>Exception\<close>, of which the request only ever reads \<^verbatim>\<open>str(e)\<close>
  (\<open>Inl\<close>). The first argument of both methods is \<^verbatim>\<open>pre_cache\<close>.
\<close>

record command =
  system_name :: string
  support_shotgun_multiple_selection :: bool
  execute :: "bool \<Rightarrow> string + pyval"
  execute_on_multiple_entities :: "bool \<Rightarrow> pyval \<Rightarrow> string + pyval"

text \<open>
  An \<^verbatim>\<open>ExternalConfiguration\<close>, of which only the name is read; it is
  \<^verbatim>\<open>None\<close> or a string.
\<close>

record external_configuration =
  pipeline_configuration_name :: "string option"

text \<open>One entry of \<^verbatim>\<open>associated_commands\<close>.\<close>

record config =
  configuration :: external_configuration
  commands :: "command list option"
  error :: "string option"

text \<open>The attributes the constructor sets on the request.\<close>

record request =
  resolved_command :: "command option"
  command_name :: pyval
  command_title :: pyval
  config_name :: pyval
  entity_type :: pyval
  entity_id :: pyval
  entity_ids :: pyval
  project_id :: pyval

subsection \<open>The constructor\<close>

definition required_params :: "string list" where
  "required_params =
     [''name'', ''title'', ''pc'', ''entity_ids'', ''entity_type'', ''project_id'']"

text \<open>
  The message of the \<^verbatim>\<open>ValueError\<close>:
  \<^verbatim>\<open>"%s: Missing parameter '%s' in payload." % (self, required_param)\<close>. The text
  of \<^verbatim>\<open>str(self)\<close> is decided by the base class and is a parameter here.
\<close>

definition missing_parameter :: "string \<Rightarrow> string \<Rightarrow> string" where
  "missing_parameter self_str required_param =
     self_str @ '': Missing parameter '' @ [CHR 0x27] @ required_param @ [CHR 0x27]
       @ '' in payload.''"

text \<open>The loop over \<^verbatim>\<open>required_params\<close>: the first missing key raises.\<close>

fun check_required :: "string \<Rightarrow> string list \<Rightarrow> params \<Rightarrow> exn option" where
  "check_required self_str [] parameters = None"
| "check_required self_str (required_param # rest) parameters =
     (if map_of parameters required_param = None
      then Some (ValueError (missing_parameter self_str required_param))
      else check_required self_str rest parameters)"

text \<open>
  Lines 90 to 107: the first entity object decides between the two encodings of
  \<^verbatim>\<open>entity_ids\<close>. The result is the pair of \<^verbatim>\<open>_entity_id\<close> and
  \<^verbatim>\<open>_entity_ids\<close>.
\<close>

definition entity_fields :: "params \<Rightarrow> exn + (pyval \<times> pyval)" where
  "entity_fields parameters =
     (case getitem_key (PDict parameters) ''entity_ids'' of
        Inl x \<Rightarrow> Inl x
      | Inr raw \<Rightarrow>
     (case getitem_0 raw of
        Inl x \<Rightarrow> Inl x
      | Inr first_entity_object \<Rightarrow>
     (if is_dict first_entity_object then
        (case getitem_key first_entity_object ''id'' of
           Inl x \<Rightarrow> Inl x
         | Inr i \<Rightarrow>
        (case iter_items raw of
           Inl x \<Rightarrow> Inl x
         | Inr es \<Rightarrow>
        (case ids_of es of
           Inl x \<Rightarrow> Inl x
         | Inr js \<Rightarrow> Inr (i, PList js))))
      else Inr (first_entity_object, raw))))"

text \<open>
  The entity store: \<^verbatim>\<open>connection.shotgun.find_one(entity_type, filters, fields)\<close>
  returns a value or raises. Every call is recorded with its three arguments.
\<close>

type_synonym find_one_call = "pyval \<times> pyval \<times> pyval"

type_synonym shotgun = "find_one_call \<Rightarrow> exn + pyval"

text \<open>
  \<^verbatim>\<open>__init__\<close>: the request, or the exception raised, together with the calls made
  to the entity store, in order.
\<close>

definition init :: "string \<Rightarrow> shotgun \<Rightarrow> params \<Rightarrow> (exn + request) \<times> find_one_call list" where
  "init self_str sg parameters =
     (case check_required self_str required_params parameters of
        Some x \<Rightarrow> (Inl x, [])
      | None \<Rightarrow>
     (case getitem_key (PDict parameters) ''name'' of
        Inl x \<Rightarrow> (Inl x, [])
      | Inr name \<Rightarrow>
     (case getitem_key (PDict parameters) ''title'' of
        Inl x \<Rightarrow> (Inl x, [])
      | Inr title \<Rightarrow>
     (case getitem_key (PDict parameters) ''pc'' of
        Inl x \<Rightarrow> (Inl x, [])
      | Inr pc \<Rightarrow>
     (case getitem_key (PDict parameters) ''entity_type'' of
        Inl x \<Rightarrow> (Inl x, [])
      | Inr etype \<Rightarrow>
     (case entity_fields parameters of
        Inl x \<Rightarrow> (Inl x, [])
      | Inr (eid, eids) \<Rightarrow>
     (let self = \<lparr> resolved_command = None, command_name = name, command_title = title,
                   config_name = pc, entity_type = etype, entity_id = eid,
                   entity_ids = eids, project_id = PNone \<rparr>
      in
      if dict_get parameters ''project_id'' = PNone then
        (let call = (etype, PList [PList [PStr ''id'', PStr ''is'', eid]],
                     PList [PStr ''project''])
         in
         case sg call of
           Inl x \<Rightarrow> (Inl x, [call])
         | Inr sg_data \<Rightarrow>
        (case getitem_key sg_data ''project'' of
           Inl x \<Rightarrow> (Inl x, [call])
         | Inr project \<Rightarrow>
        (case getitem_key project ''id'' of
           Inl x \<Rightarrow> (Inl x, [call])
         | Inr pid \<Rightarrow> (Inr (self\<lparr>project_id := pid\<rparr>), [call]))))
      else
        (case getitem_key (PDict parameters) ''project_id'' of
           Inl x \<Rightarrow> (Inl x, [])
         | Inr pid \<Rightarrow> (Inr (self\<lparr>project_id := pid\<rparr>), [])))))))))"

subsection \<open>Resolution\<close>

text \<open>
  \<^verbatim>\<open>config["configuration"].pipeline_configuration_name or "Primary"\<close>: a name that
  is \<^verbatim>\<open>None\<close> or empty is falsy and gives the literal.
\<close>

definition effective_name :: "config \<Rightarrow> string" where
  "effective_name cfg =
     (case pipeline_configuration_name (configuration cfg) of
        None \<Rightarrow> ''Primary''
      | Some n \<Rightarrow> if n = [] then ''Primary'' else n)"

text \<open>\<^verbatim>\<open>config["commands"] or []\<close>\<close>

definition commands_or_empty :: "config \<Rightarrow> command list" where
  "commands_or_empty cfg = (case commands cfg of None \<Rightarrow> [] | Some cs \<Rightarrow> cs)"

text \<open>
  The inner loop: the first command with the requested system name, at which the loop
  breaks; \<open>None\<close> when the loop ends without an assignment.
\<close>

fun find_command :: "pyval \<Rightarrow> command list \<Rightarrow> command option" where
  "find_command wanted [] = None"
| "find_command wanted (c # cs) =
     (if PStr (system_name c) = wanted then Some c else find_command wanted cs)"

text \<open>The outer loop, which has no break.\<close>

fun locate :: "request \<Rightarrow> config list \<Rightarrow> request" where
  "locate self [] = self"
| "locate self (cfg # rest) =
     (if PStr (effective_name cfg) = config_name self then
        (case find_command (command_name self) (commands_or_empty cfg) of
           None \<Rightarrow> locate self rest
         | Some c \<Rightarrow> locate (self\<lparr>resolved_command := Some c\<rparr>) rest)
      else locate self rest)"

text \<open>
  \<^verbatim>\<open>execute_with_context\<close>: either the \<^verbatim>\<open>RuntimeError\<close>, or the request with
  its command bound. The second component lists the worker threads started, each given
  as the request whose \<^verbatim>\<open>_execute\<close> it runs. A command object is truthy.
\<close>

definition execute_with_context ::
  "string \<Rightarrow> request \<Rightarrow> config list \<Rightarrow> (exn + request) \<times> request list" where
  "execute_with_context self_str self associated_commands =
     (let self' = locate self associated_commands in
      case resolved_command self' of
        None \<Rightarrow> (Inl (RuntimeError (self_str @ '': Configuration mismatch!'')), [])
      | Some c \<Rightarrow> (Inr self', [self']))"

subsection \<open>The thread payload\<close>

text \<open>\<^verbatim>\<open>needle in haystack\<close> on strings.\<close>

fun str_contains :: "string \<Rightarrow> string \<Rightarrow> bool" where
  "str_contains needle [] = (needle = [])"
| "str_contains needle (c # cs) = (prefix needle (c # cs) \<or> str_contains needle cs)"

definition qt_signature :: string where
  "qt_signature = ''Looks like you are trying to run a Sgtk App that uses a QT based UI''"

definition upgrade_message :: string where
  "upgrade_message =
     ''The version of the Toolkit Shotgun Engine (tk-shotgun) you '' @
     ''are running does not support PySide2. Please upgrade your '' @
     ''configuration to use version v0.8.0 or above of the engine.''"

text \<open>
  A call of \<^verbatim>\<open>_reply_with_status\<close> with the keyword arguments as the source passes
  them (\<open>None\<close> for one it leaves out): status, error, output.
\<close>

datatype reply = Reply_with_status "int option" "string option" "pyval option"

text \<open>The calls made on the resolved command.\<close>

datatype invocation =
    Execute bool
  | Execute_on_multiple_entities bool pyval

text \<open>The \<^verbatim>\<open>except Exception as e\<close> block, from \<^verbatim>\<open>str(e)\<close>.\<close>

definition reply_failure :: "string \<Rightarrow> reply" where
  "reply_failure description =
     (if str_contains qt_signature description
      then Reply_with_status (Some 1) (Some upgrade_message) None
      else Reply_with_status (Some 1) (Some description) None)"

text \<open>
  What reading an attribute of \<^verbatim>\<open>None\<close> raises when \<^verbatim>\<open>_execute\<close> runs
  with no resolved command; the \<^verbatim>\<open>AttributeError\<close> is caught like any other.
\<close>

definition no_command_description :: string where
  "no_command_description =
     [CHR 0x27] @ ''NoneType'' @ [CHR 0x27] @ '' object has no attribute '' @
     [CHR 0x27] @ ''support_shotgun_multiple_selection'' @ [CHR 0x27]"

text \<open>
  \<^verbatim>\<open>_execute\<close>: the calls made on the command and the reply sent. The transport
  behind \<^verbatim>\<open>_reply_with_status\<close> is taken not to raise.
\<close>

definition request_execute :: "request \<Rightarrow> invocation list \<times> reply" where
  "request_execute self =
     (case resolved_command self of
        None \<Rightarrow> ([], reply_failure no_command_description)
      | Some c \<Rightarrow>
          if support_shotgun_multiple_selection c then
            (case execute_on_multiple_entities c True (entity_ids self) of
               Inr out \<Rightarrow> ([Execute_on_multiple_entities True (entity_ids self)],
                             Reply_with_status None None (Some out))
             | Inl description \<Rightarrow>
                 ([Execute_on_multiple_entities True (entity_ids self)],
                  reply_failure description))
          else
            (case execute c True of
               Inr out \<Rightarrow> ([Execute True], Reply_with_status None None (Some out))
             | Inl description \<Rightarrow> ([Execute True], reply_failure description)))"

subsection \<open>The words of the specification\<close>

text \<open>
  A catalog matches a request when its effective scope name equals the request's
  configuration name and it holds a command whose system name equals the request's
  command name. Its first matching command is the first such command in its list.
\<close>

definition matches :: "request \<Rightarrow> config \<Rightarrow> bool" where
  "matches self cfg \<longleftrightarrow>
     PStr (effective_name cfg) = config_name self \<and>
     (\<exists>c\<in>set (commands_or_empty cfg). PStr (system_name c) = command_name self)"

definition first_matching_command :: "request \<Rightarrow> config \<Rightarrow> command option" where
  "first_matching_command self cfg =
     find (\<lambda>c. PStr (system_name c) = command_name self) (commands_or_empty cfg)"

text \<open>
  An execution failure with a given description: the call \<^verbatim>\<open>_execute\<close> makes on
  the resolved command raises an exception \<open>e\<close> with that \<^verbatim>\<open>str(e)\<close>, or there
  is no resolved command to call.
\<close>

definition execution_fails :: "request \<Rightarrow> string \<Rightarrow> bool" where
  "execution_fails self description \<longleftrightarrow>
     (case resolved_command self of
        None \<Rightarrow> description = no_command_description
      | Some c \<Rightarrow>
          (if support_shotgun_multiple_selection c
           then execute_on_multiple_entities c True (entity_ids self)
           else execute c True) = Inl description)"

subsection \<open>Sample inputs\<close>

text \<open>An entity store in which every entity belongs to project 87.\<close>

definition sample_shotgun :: shotgun where
  "sample_shotgun call = Inr (PDict [(''project'', PDict [(''id'', PInt 87)])])"

text \<open>The two payloads of the class's documentation.\<close>

definition spreadsheet_payload :: params where
  "spreadsheet_payload =
     [(''entity_ids'', PList [PInt 6947]),
      (''entity_type'', PStr ''Version''),
      (''name'', PStr ''Jump to Screening Room in RV''),
      (''pc'', PStr ''Primary''),
      (''pc_root_path'', PStr []),
      (''project_id'', PInt 87),
      (''title'', PStr ''Jump to Screening Room in RV'')]"

definition my_tasks_payload :: params where
  "my_tasks_payload =
     [(''entity_ids'', PList [PDict [(''id'', PInt 5757), (''type'', PStr ''Task'')]]),
      (''entity_type'', PStr ''Task''),
      (''name'', PStr ''nuke_9.0v6''),
      (''pc'', PStr ''Primary''),
      (''pc_root_path'', PStr []),
      (''project_id'', PNone),
      (''title'', PStr ''Nuke 9.0v6'')]"

text \<open>Variations: a payload builder with the entity ids and the project id left open.\<close>

definition payload_with :: "pyval \<Rightarrow> pyval \<Rightarrow> params" where
  "payload_with ids pid =
     [(''entity_ids'', ids),
      (''entity_type'', PStr ''Task''),
      (''name'', PStr ''nuke''),
      (''pc'', PStr ''Primary''),
      (''project_id'', pid),
      (''title'', PStr ''Nuke'')]"

definition payload_without_project_id :: params where
  "payload_without_project_id =
     [(''entity_ids'', PList [PInt 6947]),
      (''entity_type'', PStr ''Version''),
      (''name'', PStr ''nuke''),
      (''pc'', PStr ''Primary''),
      (''title'', PStr ''Nuke'')]"

definition payload_without_pc :: params where
  "payload_without_pc =
     [(''entity_ids'', PList [PInt 6947]),
      (''entity_type'', PStr ''Version''),
      (''name'', PStr ''nuke''),
      (''project_id'', PInt 87),
      (''title'', PStr ''Nuke'')]"

text \<open>
  A command that succeeds: run on one entity it answers with its tag, run on several it
  answers the ids it was given. And a command that fails with a given description.
\<close>

definition echo_command :: "string \<Rightarrow> string \<Rightarrow> bool \<Rightarrow> command" where
  "echo_command n tag multi =
     \<lparr> system_name = n, support_shotgun_multiple_selection = multi,
       execute = (\<lambda>pre_cache. Inr (PStr tag)),
       execute_on_multiple_entities = (\<lambda>pre_cache ids. Inr ids) \<rparr>"

definition failing_command :: "string \<Rightarrow> string \<Rightarrow> command" where
  "failing_command n description =
     \<lparr> system_name = n, support_shotgun_multiple_selection = False,
       execute = (\<lambda>pre_cache. Inl description),
       execute_on_multiple_entities = (\<lambda>pre_cache ids. Inl description) \<rparr>"

definition sample_request :: request where
  "sample_request =
     \<lparr> resolved_command = None, command_name = PStr ''nuke'',
       command_title = PStr ''Nuke'', config_name = PStr ''Primary'',
       entity_type = PStr ''Task'', entity_id = PInt 1,
       entity_ids = PList [PInt 1, PInt 2], project_id = PInt 87 \<rparr>"

definition catalog :: "string option \<Rightarrow> command list option \<Rightarrow> config" where
  "catalog n cs =
     \<lparr> configuration = \<lparr> pipeline_configuration_name = n \<rparr>, commands = cs,
       error = None \<rparr>"

text \<open>A selection of three entity dictionaries, the second with its keys the other way round.\<close>

definition record_selection :: "pyval list" where
  "record_selection =
     [PDict [(''id'', PInt 5757), (''type'', PStr ''Task'')],
      PDict [(''type'', PStr ''Task''), (''id'', PInt 12)],
      PDict [(''id'', PInt 40), (''type'', PStr ''Task'')]]"

text \<open>Catalog lists: one in which two catalogs match the sample request, one in which none does.\<close>

definition two_primary_catalogs :: "config list" where
  "two_primary_catalogs =
     [catalog (Some ''Primary'') (Some [echo_command ''nuke'' ''first'' False]),
      catalog (Some ''Dev'') (Some [echo_command ''nuke'' ''dev'' False]),
      catalog None
        (Some [echo_command ''maya'' ''other'' False, echo_command ''nuke'' ''second'' False,
               echo_command ''nuke'' ''third'' False])]"

definition unmatched_catalogs :: "config list" where
  "unmatched_catalogs =
     [catalog (Some ''Primary'') None,
      catalog (Some ''Primary'') (Some [echo_command ''maya'' ''other'' False]),
      catalog (Some ''Dev'') (Some [echo_command ''nuke'' ''dev'' False])]"

text \<open>A failure description that begins as the legacy engine's message does.\<close>

definition legacy_description :: string where
  "legacy_description = qt_signature @ '', however the Shotgun engine could not find a PyQt''"

section \<open>Properties\<close>

subsection \<open>Auxiliary facts\<close>

lemma check_required_None:
  "check_required self_str ks parameters = None \<longleftrightarrow> (\<forall>k\<in>set ks. map_of parameters k \<noteq> None)"
  by (induction ks) auto

lemma check_required_find:
  "find (\<lambda>k. map_of parameters k = None) ks = Some k \<Longrightarrow>
   check_required self_str ks parameters = Some (ValueError (missing_parameter self_str k))"
  by (induction ks) (auto split: if_splits)

lemma str_contains_sublist: "str_contains needle hay \<longleftrightarrow> sublist needle hay"
  by (induction hay) (auto simp: sublist_Cons_right)

lemma locate_snoc: "locate self (cs @ [cfg]) = locate (locate self cs) [cfg]"
  by (induction cs arbitrary: self) (auto split: option.splits)

lemma locate_config_name [simp]: "config_name (locate self cs) = config_name self"
  by (induction cs arbitrary: self) (auto split: option.splits)

lemma locate_command_name [simp]: "command_name (locate self cs) = command_name self"
  by (induction cs arbitrary: self) (auto split: option.splits)

lemma locate_update:
  "locate self cs = self\<lparr>resolved_command := resolved_command (locate self cs)\<rparr>"
proof (induction cs arbitrary: self)
  case Nil
  show ?case by simp
next
  case (Cons cfg rest)
  show ?case
  proof (cases "PStr (effective_name cfg) = config_name self")
    case False
    then show ?thesis using Cons.IH [of self] by simp
  next
    case True
    show ?thesis
    proof (cases "find_command (command_name self) (commands_or_empty cfg)")
      case None
      then show ?thesis using True Cons.IH [of self] by simp
    next
      case (Some c)
      have "locate (self\<lparr>resolved_command := Some c\<rparr>) rest =
            self\<lparr>resolved_command :=
              resolved_command (locate (self\<lparr>resolved_command := Some c\<rparr>) rest)\<rparr>"
        using Cons.IH [of "self\<lparr>resolved_command := Some c\<rparr>"] by simp
      then show ?thesis using True Some by simp
    qed
  qed
qed

lemma find_command_find:
  "find_command wanted cs = find (\<lambda>c. PStr (system_name c) = wanted) cs"
  by (induction cs) auto

lemma first_matching_command_None:
  "first_matching_command self cfg = None \<longleftrightarrow>
   \<not> (\<exists>c\<in>set (commands_or_empty cfg). PStr (system_name c) = command_name self)"
  by (auto simp: first_matching_command_def find_None_iff)

lemma locate_single:
  "locate self [cfg] =
     (if matches self cfg then self\<lparr>resolved_command := first_matching_command self cfg\<rparr>
      else self)"
proof (cases "matches self cfg")
  case True
  then obtain c where c: "first_matching_command self cfg = Some c"
    using first_matching_command_None [of self cfg] by (auto simp: matches_def)
  then have "find_command (command_name self) (commands_or_empty cfg) = Some c"
    by (simp add: find_command_find first_matching_command_def)
  then show ?thesis using True c by (simp add: matches_def)
next
  case False
  then have "PStr (effective_name cfg) = config_name self \<Longrightarrow>
             find_command (command_name self) (commands_or_empty cfg) = None"
    by (auto simp: matches_def find_command_find find_None_iff)
  then show ?thesis using False by auto
qed

lemma matches_locate [simp]: "matches (locate self cs) cfg = matches self cfg"
  by (simp add: matches_def)

lemma first_matching_command_locate [simp]:
  "first_matching_command (locate self cs) cfg = first_matching_command self cfg"
  by (simp add: first_matching_command_def)

lemma resolved_command_locate:
  "resolved_command (locate self cs) =
     (if filter (matches self) cs = [] then resolved_command self
      else first_matching_command self (last (filter (matches self) cs)))"
proof (induction cs rule: rev_induct)
  case Nil
  show ?case by simp
next
  case (snoc cfg cs)
  have step: "locate self (cs @ [cfg]) =
      (if matches self cfg
       then (locate self cs)\<lparr>resolved_command := first_matching_command self cfg\<rparr>
       else locate self cs)"
    unfolding locate_snoc [of self cs cfg] locate_single [of "locate self cs" cfg]
    by simp
  show ?case
  proof (cases "matches self cfg")
    case True
    then show ?thesis unfolding step by simp
  next
    case False
    then show ?thesis unfolding step using snoc.IH by simp
  qed
qed

lemma matches_first_matching_command:
  "matches self cfg \<Longrightarrow> \<exists>c. first_matching_command self cfg = Some c"
  using first_matching_command_None [of self cfg] by (auto simp: matches_def)

lemma required_present:
  assumes "\<forall>k\<in>set required_params. map_of parameters k \<noteq> None"
  obtains name title pc raw etype pid where
    "map_of parameters ''name'' = Some name"
    "map_of parameters ''title'' = Some title"
    "map_of parameters ''pc'' = Some pc"
    "map_of parameters ''entity_ids'' = Some raw"
    "map_of parameters ''entity_type'' = Some etype"
    "map_of parameters ''project_id'' = Some pid"
  using assms by (auto simp: required_params_def)

lemma init_missing:
  assumes "find (\<lambda>k. map_of parameters k = None) required_params = Some k"
  shows "init self_str sg parameters = (Inl (ValueError (missing_parameter self_str k)), [])"
  using check_required_find [OF assms, of self_str] by (simp add: init_def)

lemma init_entity_error:
  assumes "\<forall>k\<in>set required_params. map_of parameters k \<noteq> None"
    and "entity_fields parameters = Inl x"
  shows "init self_str sg parameters = (Inl x, [])"
proof -
  have c: "check_required self_str required_params parameters = None"
    using assms(1) by (simp add: check_required_None)
  from assms(1) obtain name title pc raw etype pid where
    "map_of parameters ''name'' = Some name"
    "map_of parameters ''title'' = Some title"
    "map_of parameters ''pc'' = Some pc"
    "map_of parameters ''entity_type'' = Some etype"
    by (rule required_present)
  then show ?thesis using c assms(2) by (simp add: init_def)
qed

lemma init_supplied:
  assumes "\<forall>k\<in>set required_params. map_of parameters k \<noteq> None"
    and "entity_fields parameters = Inr (eid, eids)"
    and "map_of parameters ''project_id'' = Some pid"
    and "pid \<noteq> PNone"
  shows "init self_str sg parameters =
    (Inr \<lparr> resolved_command = None, command_name = dict_get parameters ''name'',
           command_title = dict_get parameters ''title'',
           config_name = dict_get parameters ''pc'',
           entity_type = dict_get parameters ''entity_type'', entity_id = eid,
           entity_ids = eids, project_id = pid \<rparr>, [])"
proof -
  have c: "check_required self_str required_params parameters = None"
    using assms(1) by (simp add: check_required_None)
  from assms(1) obtain name title pc raw etype pid where
    "map_of parameters ''name'' = Some name"
    "map_of parameters ''title'' = Some title"
    "map_of parameters ''pc'' = Some pc"
    "map_of parameters ''entity_type'' = Some etype"
    by (rule required_present)
  then show ?thesis using c assms(2-4) by (simp add: init_def dict_get_def)
qed

lemma init_lookup:
  assumes "\<forall>k\<in>set required_params. map_of parameters k \<noteq> None"
    and "entity_fields parameters = Inr (eid, eids)"
    and "map_of parameters ''project_id'' = Some PNone"
    and "call = (dict_get parameters ''entity_type'',
                 PList [PList [PStr ''id'', PStr ''is'', eid]], PList [PStr ''project''])"
  shows "init self_str sg parameters =
    ((case sg call of
        Inl x \<Rightarrow> Inl x
      | Inr sg_data \<Rightarrow>
     (case getitem_key sg_data ''project'' of
        Inl x \<Rightarrow> Inl x
      | Inr project \<Rightarrow>
     (case getitem_key project ''id'' of
        Inl x \<Rightarrow> Inl x
      | Inr pid \<Rightarrow>
          Inr \<lparr> resolved_command = None, command_name = dict_get parameters ''name'',
                command_title = dict_get parameters ''title'',
                config_name = dict_get parameters ''pc'',
                entity_type = dict_get parameters ''entity_type'', entity_id = eid,
                entity_ids = eids, project_id = pid \<rparr>))),
     [call])"
proof -
  have c: "check_required self_str required_params parameters = None"
    using assms(1) by (simp add: check_required_None)
  from assms(1) obtain name title pc raw etype pid where
    "map_of parameters ''name'' = Some name"
    "map_of parameters ''title'' = Some title"
    "map_of parameters ''pc'' = Some pc"
    "map_of parameters ''entity_type'' = Some etype"
    by (rule required_present)
  then show ?thesis using c assms(2-4)
    by (simp add: init_def dict_get_def Let_def split: sum.splits)
qed

lemma ids_of_records:
  "list_all2 (\<lambda>e i. \<exists>d. e = PDict d \<and> map_of d ''id'' = Some (PInt i)) es js \<Longrightarrow>
   ids_of es = Inr (map PInt js)"
  by (induction rule: list_all2_induct) auto

lemma entity_fields_ints:
  assumes "map_of parameters ''entity_ids'' = Some (PList (map PInt (n # ns)))"
  shows "entity_fields parameters = Inr (PInt n, PList (map PInt (n # ns)))"
  using assms by (simp add: entity_fields_def)

lemma entity_fields_records:
  assumes "map_of parameters ''entity_ids'' = Some (PList es)"
    and "list_all2 (\<lambda>e i. \<exists>d. e = PDict d \<and> map_of d ''id'' = Some (PInt i)) es (j # js)"
  shows "entity_fields parameters = Inr (PInt j, PList (map PInt (j # js)))"
proof -
  from assms(2) obtain d rest where es: "es = PDict d # rest"
    and d: "map_of d ''id'' = Some (PInt j)"
    by (auto simp: list_all2_Cons2)
  have "ids_of es = Inr (map PInt (j # js))"
    using assms(2) by (rule ids_of_records)
  then show ?thesis using assms(1) es d by (simp add: entity_fields_def)
qed

lemma entity_fields_empty:
  assumes "map_of parameters ''entity_ids'' = Some (PList [])"
  shows "entity_fields parameters = Inl IndexError"
  using assms by (simp add: entity_fields_def)

lemma init_Inr_entity_fields:
  assumes "init self_str sg parameters = (Inr self, calls)"
  shows "entity_fields parameters = Inr (entity_id self, entity_ids self)"
  using assms
  by (auto simp: init_def Let_def split: option.splits sum.splits prod.splits if_splits)

lemma upgrade_message_no_signature: "\<not> sublist qt_signature upgrade_message"
  by (simp add: str_contains_sublist [symmetric] qt_signature_def upgrade_message_def)

lemma request_execute_fails:
  assumes "execution_fails self description"
  shows "snd (request_execute self) = reply_failure description"
  using assms
  by (auto simp: execution_fails_def request_execute_def split: option.splits if_splits)

lemma init_resolved_command:
  assumes "init self_str sg parameters = (Inr self, calls)"
  shows "resolved_command self = None"
  using assms
  by (auto simp: init_def Let_def split: option.splits sum.splits prod.splits if_splits)

lemma execute_with_context_matched:
  assumes "filter (matches self) cs \<noteq> []"
  shows "first_matching_command self (last (filter (matches self) cs)) \<noteq> None"
    and "execute_with_context self_str self cs =
      (Inr (self\<lparr>resolved_command :=
              first_matching_command self (last (filter (matches self) cs))\<rparr>),
       [self\<lparr>resolved_command :=
              first_matching_command self (last (filter (matches self) cs))\<rparr>])"
proof -
  let ?m = "last (filter (matches self) cs)"
  have "?m \<in> set (filter (matches self) cs)"
    using assms by (rule last_in_set)
  then have "matches self ?m" by simp
  then obtain c where c: "first_matching_command self ?m = Some c"
    using matches_first_matching_command by blast
  then show "first_matching_command self ?m \<noteq> None" by simp
  have r: "resolved_command (locate self cs) = Some c"
    using assms c by (simp add: resolved_command_locate)
  have "locate self cs = self\<lparr>resolved_command := Some c\<rparr>"
    using locate_update [of self cs] r by simp
  then show "execute_with_context self_str self cs =
      (Inr (self\<lparr>resolved_command := first_matching_command self ?m\<rparr>),
       [self\<lparr>resolved_command := first_matching_command self ?m\<rparr>])"
    using c by (simp add: execute_with_context_def Let_def)
qed

lemma execute_with_context_unmatched:
  assumes "filter (matches self) cs = []" and "resolved_command self = None"
  shows "execute_with_context self_str self cs =
      (Inl (RuntimeError (self_str @ '': Configuration mismatch!'')), [])"
proof -
  have "resolved_command (locate self cs) = None"
    using assms by (simp add: resolved_command_locate)
  then show ?thesis by (simp add: execute_with_context_def)
qed

section \<open>The properties of the specification\<close>

subsection \<open>Construction\<close>

text \<open>
  C6. A payload that lacks one of the six required keys is rejected: the constructor
  raises the \<^verbatim>\<open>ValueError\<close> whose message names the first missing key in the
  order of \<^verbatim>\<open>required_params\<close> (the missing key itself when only one is missing),
  and the entity store has not been called.
\<close>

theorem missing_required_key_rejected:
  assumes "k \<in> set required_params" and "map_of parameters k = None"
  shows "\<exists>k'. find (\<lambda>k. map_of parameters k = None) required_params = Some k' \<and>
           k' \<in> set required_params \<and> map_of parameters k' = None \<and>
           sublist k' (missing_parameter self_str k') \<and>
           init self_str sg parameters =
             (Inl (ValueError (missing_parameter self_str k')), [])"
proof -
  from assms obtain k' where
    f: "find (\<lambda>k. map_of parameters k = None) required_params = Some k'"
    by (cases "find (\<lambda>k. map_of parameters k = None) required_params")
       (auto simp: find_None_iff)
  then have m: "k' \<in> set required_params" "map_of parameters k' = None"
    by (auto simp: find_Some_iff)
  have "missing_parameter self_str k' =
          (self_str @ '': Missing parameter '' @ [CHR 0x27]) @ k' @
          ([CHR 0x27] @ '' in payload.'')"
    by (simp add: missing_parameter_def)
  then have "sublist k' (missing_parameter self_str k')"
    unfolding sublist_def by blast
  then show ?thesis using f m init_missing [OF f] by blast
qed

theorem missing_required_key_rejected_witness:
  "''pc'' \<in> set required_params \<and> map_of payload_without_pc ''pc'' = None \<and>
   init ''req'' sample_shotgun payload_without_pc =
     (Inl (ValueError (missing_parameter ''req'' ''pc'')), [])"
  using missing_required_key_rejected
          [of "''pc''" payload_without_pc "''req''" sample_shotgun]
  by (simp add: required_params_def payload_without_pc_def)

text \<open>
  C10. A payload with all six keys whose \<^verbatim>\<open>entity_ids\<close> is the empty list makes
  the constructor raise \<^verbatim>\<open>IndexError\<close>, from the unguarded
  \<^verbatim>\<open>parameters["entity_ids"][0]\<close>; it is not a \<^verbatim>\<open>ValueError\<close>, and the entity
  store has not been called.
\<close>

theorem empty_entity_ids_index_error:
  assumes "\<forall>k\<in>set required_params. map_of parameters k \<noteq> None"
    and "map_of parameters ''entity_ids'' = Some (PList [])"
  shows "init self_str sg parameters = (Inl IndexError, []) \<and>
         (\<forall>message. fst (init self_str sg parameters) \<noteq> Inl (ValueError message))"
  using init_entity_error [OF assms(1) entity_fields_empty [OF assms(2)]] by simp

theorem empty_entity_ids_index_error_witness:
  "list_all (\<lambda>k. map_of (payload_with (PList []) (PInt 87)) k \<noteq> None) required_params \<and>
   map_of (payload_with (PList []) (PInt 87)) ''entity_ids'' = Some (PList []) \<and>
   init ''req'' sample_shotgun (payload_with (PList []) (PInt 87)) = (Inl IndexError, [])"
  using empty_entity_ids_index_error
          [of "payload_with (PList []) (PInt 87)" "''req''" sample_shotgun]
  by (simp add: required_params_def payload_with_def)

lemma accepted_entity_fields:
  assumes "init self_str sg parameters = (Inr self, calls)"
  shows "(\<forall>ns. map_of parameters ''entity_ids'' = Some (PList (map PInt ns)) \<longrightarrow>
            (\<exists>n rest. ns = n # rest \<and> entity_id self = PInt n) \<and>
            entity_ids self = PList (map PInt ns)) \<and>
         (\<forall>es js. map_of parameters ''entity_ids'' = Some (PList es) \<and>
            list_all2 (\<lambda>e j. \<exists>d. e = PDict d \<and> map_of d ''id'' = Some (PInt j)) es js \<longrightarrow>
            (\<exists>j rest. js = j # rest \<and> entity_id self = PInt j) \<and>
            entity_ids self = PList (map PInt js))"
proof -
  have ef: "entity_fields parameters = Inr (entity_id self, entity_ids self)"
    using assms by (rule init_Inr_entity_fields)
  have ints: "(\<exists>n rest. ns = n # rest \<and> entity_id self = PInt n) \<and>
              entity_ids self = PList (map PInt ns)"
    if raw: "map_of parameters ''entity_ids'' = Some (PList (map PInt ns))" for ns
  proof (cases ns)
    case Nil
    then show ?thesis using ef entity_fields_empty [of parameters] raw by simp
  next
    case (Cons n rest)
    have "entity_fields parameters = Inr (PInt n, PList (map PInt ns))"
      using entity_fields_ints [of parameters n rest] raw Cons by simp
    with ef have "entity_id self = PInt n" "entity_ids self = PList (map PInt ns)"
      by simp_all
    then show ?thesis using Cons by simp
  qed
  have records: "(\<exists>j rest. js = j # rest \<and> entity_id self = PInt j) \<and>
              entity_ids self = PList (map PInt js)"
    if raw: "map_of parameters ''entity_ids'' = Some (PList es)"
      and rel: "list_all2 (\<lambda>e j. \<exists>d. e = PDict d \<and> map_of d ''id'' = Some (PInt j)) es js"
    for es js
  proof (cases js)
    case Nil
    then have "es = []" using rel by simp
    then show ?thesis using ef entity_fields_empty [of parameters] raw by simp
  next
    case (Cons j rest)
    have "entity_fields parameters = Inr (PInt j, PList (map PInt js))"
      using entity_fields_records [of parameters es j rest] raw rel Cons by simp
    with ef have "entity_id self = PInt j" "entity_ids self = PList (map PInt js)"
      by simp_all
    then show ?thesis using Cons by simp
  qed
  show ?thesis using ints records by blast
qed

lemma entity_fields_either:
  assumes "map_of parameters ''entity_ids'' = Some (PList es)"
    and "es = map PInt (j # js) \<or>
         list_all2 (\<lambda>e j. \<exists>d. e = PDict d \<and> map_of d ''id'' = Some (PInt j)) es (j # js)"
  shows "entity_fields parameters = Inr (PInt j, PList (map PInt (j # js)))"
  using assms entity_fields_ints [of parameters j js]
    entity_fields_records [of parameters es j js]
  by auto

lemma init_spreadsheet_payload:
  "init ''req'' sample_shotgun spreadsheet_payload =
     (Inr \<lparr> resolved_command = None,
            command_name = PStr ''Jump to Screening Room in RV'',
            command_title = PStr ''Jump to Screening Room in RV'',
            config_name = PStr ''Primary'', entity_type = PStr ''Version'',
            entity_id = PInt 6947, entity_ids = PList [PInt 6947],
            project_id = PInt 87 \<rparr>, [])"
  by (simp add: init_def required_params_def spreadsheet_payload_def entity_fields_def
        dict_get_def)

lemma init_my_tasks_payload:
  "init ''req'' sample_shotgun my_tasks_payload =
     (Inr \<lparr> resolved_command = None, command_name = PStr ''nuke_9.0v6'',
            command_title = PStr ''Nuke 9.0v6'', config_name = PStr ''Primary'',
            entity_type = PStr ''Task'', entity_id = PInt 5757,
            entity_ids = PList [PInt 5757], project_id = PInt 87 \<rparr>,
      [(PStr ''Task'', PList [PList [PStr ''id'', PStr ''is'', PInt 5757]],
        PList [PStr ''project''])])"
  by (simp add: init_def required_params_def my_tasks_payload_def entity_fields_def
        dict_get_def sample_shotgun_def)

text \<open>
  C5. A payload with the six required keys whose \<^verbatim>\<open>entity_ids\<close> is a non-empty list
  of bare integers, or a non-empty list of dictionaries holding integers under
  \<^verbatim>\<open>id\<close>, is normalised: with \<open>j # js\<close> the integers, in order, whenever the
  constructor returns a request its \<^verbatim>\<open>_entity_id\<close> is \<open>j\<close> and its
  \<^verbatim>\<open>_entity_ids\<close> is the whole list \<open>j # js\<close> (for bare integers, the list as it
  came). The constructor does return a request, without calling the entity store, when
  \<^verbatim>\<open>project_id\<close> is not \<^verbatim>\<open>None\<close>, and also when it is \<^verbatim>\<open>None\<close> and the
  entity store answers a record whose \<^verbatim>\<open>project\<close> has an \<^verbatim>\<open>id\<close>; nothing but the
  lookup can make it fail. Conversely every accepted payload of either form has a
  non-empty list and the fields above.
\<close>

theorem entity_reference_normalization:
  "((\<forall>k\<in>set required_params. map_of parameters k \<noteq> None) \<and>
    map_of parameters ''entity_ids'' = Some (PList es) \<and>
    (es = map PInt (j # js) \<or>
     list_all2 (\<lambda>e j. \<exists>d. e = PDict d \<and> map_of d ''id'' = Some (PInt j)) es (j # js)) \<longrightarrow>
      (\<forall>self calls. init self_str sg parameters = (Inr self, calls) \<longrightarrow>
         entity_id self = PInt j \<and> entity_ids self = PList (map PInt (j # js))) \<and>
      (\<forall>pid. map_of parameters ''project_id'' = Some pid \<and> pid \<noteq> PNone \<longrightarrow>
         (\<exists>self. init self_str sg parameters = (Inr self, []) \<and>
            entity_id self = PInt j \<and> entity_ids self = PList (map PInt (j # js)))) \<and>
      (\<forall>d project pid.
         map_of parameters ''project_id'' = Some PNone \<and>
         sg (dict_get parameters ''entity_type'',
             PList [PList [PStr ''id'', PStr ''is'', PInt j]], PList [PStr ''project''])
           = Inr (PDict d) \<and>
         map_of d ''project'' = Some (PDict project) \<and> map_of project ''id'' = Some pid \<longrightarrow>
         (\<exists>self. fst (init self_str sg parameters) = Inr self \<and>
            entity_id self = PInt j \<and> entity_ids self = PList (map PInt (j # js)))) \<and>
      (\<forall>x. fst (init self_str sg parameters) = Inl x \<longrightarrow>
         map_of parameters ''project_id'' = Some PNone \<and>
         length (snd (init self_str sg parameters)) = 1)) \<and>
   (\<forall>self calls. init self_str sg parameters = (Inr self, calls) \<longrightarrow>
      (\<forall>ns. map_of parameters ''entity_ids'' = Some (PList (map PInt ns)) \<longrightarrow>
         (\<exists>n rest. ns = n # rest \<and> entity_id self = PInt n) \<and>
         entity_ids self = PList (map PInt ns)) \<and>
      (\<forall>es js. map_of parameters ''entity_ids'' = Some (PList es) \<and>
         list_all2 (\<lambda>e j. \<exists>d. e = PDict d \<and> map_of d ''id'' = Some (PInt j)) es js \<longrightarrow>
         (\<exists>j rest. js = j # rest \<and> entity_id self = PInt j) \<and>
         entity_ids self = PList (map PInt js)))"
proof (rule conjI)
  show "\<forall>self calls. init self_str sg parameters = (Inr self, calls) \<longrightarrow>
      (\<forall>ns. map_of parameters ''entity_ids'' = Some (PList (map PInt ns)) \<longrightarrow>
         (\<exists>n rest. ns = n # rest \<and> entity_id self = PInt n) \<and>
         entity_ids self = PList (map PInt ns)) \<and>
      (\<forall>es js. map_of parameters ''entity_ids'' = Some (PList es) \<and>
         list_all2 (\<lambda>e j. \<exists>d. e = PDict d \<and> map_of d ''id'' = Some (PInt j)) es js \<longrightarrow>
         (\<exists>j rest. js = j # rest \<and> entity_id self = PInt j) \<and>
         entity_ids self = PList (map PInt js))"
    using accepted_entity_fields [of self_str sg parameters] by blast
next
  show "(\<forall>k\<in>set required_params. map_of parameters k \<noteq> None) \<and>
    map_of parameters ''entity_ids'' = Some (PList es) \<and>
    (es = map PInt (j # js) \<or>
     list_all2 (\<lambda>e j. \<exists>d. e = PDict d \<and> map_of d ''id'' = Some (PInt j)) es (j # js)) \<longrightarrow>
      (\<forall>self calls. init self_str sg parameters = (Inr self, calls) \<longrightarrow>
         entity_id self = PInt j \<and> entity_ids self = PList (map PInt (j # js))) \<and>
      (\<forall>pid. map_of parameters ''project_id'' = Some pid \<and> pid \<noteq> PNone \<longrightarrow>
         (\<exists>self. init self_str sg parameters = (Inr self, []) \<and>
            entity_id self = PInt j \<and> entity_ids self = PList (map PInt (j # js)))) \<and>
      (\<forall>d project pid.
         map_of parameters ''project_id'' = Some PNone \<and>
         sg (dict_get parameters ''entity_type'',
             PList [PList [PStr ''id'', PStr ''is'', PInt j]], PList [PStr ''project''])
           = Inr (PDict d) \<and>
         map_of d ''project'' = Some (PDict project) \<and> map_of project ''id'' = Some pid \<longrightarrow>
         (\<exists>self. fst (init self_str sg parameters) = Inr self \<and>
            entity_id self = PInt j \<and> entity_ids self = PList (map PInt (j # js)))) \<and>
      (\<forall>x. fst (init self_str sg parameters) = Inl x \<longrightarrow>
         map_of parameters ''project_id'' = Some PNone \<and>
         length (snd (init self_str sg parameters)) = 1)"
  proof (intro impI, elim conjE)
    assume keys: "\<forall>k\<in>set required_params. map_of parameters k \<noteq> None"
      and raw: "map_of parameters ''entity_ids'' = Some (PList es)"
      and form: "es = map PInt (j # js) \<or>
        list_all2 (\<lambda>e j. \<exists>d. e = PDict d \<and> map_of d ''id'' = Some (PInt j)) es (j # js)"
    have ef: "entity_fields parameters = Inr (PInt j, PList (map PInt (j # js)))"
      using raw form by (rule entity_fields_either)
    have accepted: "entity_id self = PInt j \<and> entity_ids self = PList (map PInt (j # js))"
      if "init self_str sg parameters = (Inr self, calls)" for self calls
    proof -
      have "Inr (entity_id self, entity_ids self) =
            (Inr (PInt j, PList (map PInt (j # js))) :: exn + pyval \<times> pyval)"
        using init_Inr_entity_fields [OF that] ef by (rule trans [OF sym])
      then show ?thesis by blast
    qed
    have supplied: "\<exists>self. init self_str sg parameters = (Inr self, []) \<and>
            entity_id self = PInt j \<and> entity_ids self = PList (map PInt (j # js))"
      if "map_of parameters ''project_id'' = Some pid \<and> pid \<noteq> PNone" for pid
      using init_supplied [OF keys ef, of pid self_str sg] that by simp
    have looked_up: "\<exists>self. fst (init self_str sg parameters) = Inr self \<and>
            entity_id self = PInt j \<and> entity_ids self = PList (map PInt (j # js))"
      if "map_of parameters ''project_id'' = Some PNone \<and>
         sg (dict_get parameters ''entity_type'',
             PList [PList [PStr ''id'', PStr ''is'', PInt j]], PList [PStr ''project''])
           = Inr (PDict d) \<and>
         map_of d ''project'' = Some (PDict project) \<and> map_of project ''id'' = Some pid"
      for d project pid
      using that by (simp add: init_lookup [OF keys ef])
    have failure: "map_of parameters ''project_id'' = Some PNone \<and>
         length (snd (init self_str sg parameters)) = 1"
      if x: "fst (init self_str sg parameters) = Inl x" for x
    proof -
      from keys obtain pid where pid: "map_of parameters ''project_id'' = Some pid"
        by (auto simp: required_params_def)
      show ?thesis
      proof (cases "pid = PNone")
        case True
        then show ?thesis using pid by (simp add: init_lookup [OF keys ef])
      next
        case False
        then show ?thesis using init_supplied [OF keys ef pid, of self_str sg] x by simp
      qed
    qed
    show "(\<forall>self calls. init self_str sg parameters = (Inr self, calls) \<longrightarrow>
         entity_id self = PInt j \<and> entity_ids self = PList (map PInt (j # js))) \<and>
      (\<forall>pid. map_of parameters ''project_id'' = Some pid \<and> pid \<noteq> PNone \<longrightarrow>
         (\<exists>self. init self_str sg parameters = (Inr self, []) \<and>
            entity_id self = PInt j \<and> entity_ids self = PList (map PInt (j # js)))) \<and>
      (\<forall>d project pid.
         map_of parameters ''project_id'' = Some PNone \<and>
         sg (dict_get parameters ''entity_type'',
             PList [PList [PStr ''id'', PStr ''is'', PInt j]], PList [PStr ''project''])
           = Inr (PDict d) \<and>
         map_of d ''project'' = Some (PDict project) \<and> map_of project ''id'' = Some pid \<longrightarrow>
         (\<exists>self. fst (init self_str sg parameters) = Inr self \<and>
            entity_id self = PInt j \<and> entity_ids self = PList (map PInt (j # js)))) \<and>
      (\<forall>x. fst (init self_str sg parameters) = Inl x \<longrightarrow>
         map_of parameters ''project_id'' = Some PNone \<and>
         length (snd (init self_str sg parameters)) = 1)"
      using accepted supplied looked_up failure by blast
  qed
qed


theorem entity_reference_normalization_witness:
  "list_all (\<lambda>k. map_of (payload_with (PList [PInt 3, PInt 1, PInt 2]) (PInt 87)) k \<noteq> None)
     required_params \<and>
   map_of (payload_with (PList [PInt 3, PInt 1, PInt 2]) (PInt 87)) ''entity_ids'' =
     Some (PList (map PInt [3, 1, 2])) \<and>
   map_of (payload_with (PList [PInt 3, PInt 1, PInt 2]) (PInt 87)) ''project_id'' =
     Some (PInt 87) \<and>
   (\<exists>self. init ''req'' sample_shotgun (payload_with (PList [PInt 3, PInt 1, PInt 2]) (PInt 87))
        = (Inr self, []) \<and>
      entity_id self = PInt 3 \<and> entity_ids self = PList [PInt 3, PInt 1, PInt 2]) \<and>
   list_all (\<lambda>k. map_of (payload_with (PList record_selection) PNone) k \<noteq> None)
     required_params \<and>
   map_of (payload_with (PList record_selection) PNone) ''entity_ids'' =
     Some (PList record_selection) \<and>
   list_all2 (\<lambda>e j. \<exists>d. e = PDict d \<and> map_of d ''id'' = Some (PInt j))
     record_selection [5757, 12, 40] \<and>
   map_of (payload_with (PList record_selection) PNone) ''project_id'' = Some PNone \<and>
   sample_shotgun (PStr ''Task'', PList [PList [PStr ''id'', PStr ''is'', PInt 5757]],
       PList [PStr ''project'']) = Inr (PDict [(''project'', PDict [(''id'', PInt 87)])]) \<and>
   (\<exists>self. fst (init ''req'' sample_shotgun (payload_with (PList record_selection) PNone))
        = Inr self \<and>
      entity_id self = PInt 5757 \<and> entity_ids self = PList [PInt 5757, PInt 12, PInt 40])"
proof -
  let ?p = "payload_with (PList [PInt 3, PInt 1, PInt 2]) (PInt 87)"
  let ?q = "payload_with (PList record_selection) PNone"
  have p1: "\<forall>k\<in>set required_params. map_of ?p k \<noteq> None"
    by (simp add: payload_with_def required_params_def)
  have p2: "map_of ?p ''entity_ids'' = Some (PList (map PInt [3, 1, 2]))"
    by (simp add: payload_with_def)
  have p3: "map_of ?p ''project_id'' = Some (PInt 87)"
    by (simp add: payload_with_def)
  have q1: "\<forall>k\<in>set required_params. map_of ?q k \<noteq> None"
    by (simp add: payload_with_def required_params_def)
  have q2: "map_of ?q ''entity_ids'' = Some (PList record_selection)"
    by (simp add: payload_with_def)
  have q3: "map_of ?q ''project_id'' = Some PNone"
    by (simp add: payload_with_def)
  have q4: "dict_get ?q ''entity_type'' = PStr ''Task''"
    by (simp add: payload_with_def dict_get_def)
  have r: "list_all2 (\<lambda>e j. \<exists>d. e = PDict d \<and> map_of d ''id'' = Some (PInt j))
     record_selection [5757, 12, 40]"
    by (simp add: record_selection_def)
  have s: "sample_shotgun (PStr ''Task'', PList [PList [PStr ''id'', PStr ''is'', PInt 5757]],
       PList [PStr ''project'']) = Inr (PDict [(''project'', PDict [(''id'', PInt 87)])])"
    by (simp add: sample_shotgun_def)
  have a: "\<exists>self. init ''req'' sample_shotgun ?p = (Inr self, []) \<and>
      entity_id self = PInt 3 \<and> entity_ids self = PList (map PInt [3, 1, 2])"
  proof -
    have "\<forall>pid. map_of ?p ''project_id'' = Some pid \<and> pid \<noteq> PNone \<longrightarrow>
         (\<exists>self. init ''req'' sample_shotgun ?p = (Inr self, []) \<and>
            entity_id self = PInt 3 \<and> entity_ids self = PList (map PInt [3, 1, 2]))"
      using entity_reference_normalization
            [where parameters = ?p and es = "map PInt [3, 1, 2]" and j = 3 and js = "[1, 2]"
               and self_str = "''req''" and sg = sample_shotgun]
          p1 p2
      by (elim conjE impE) (intro conjI, assumption+, simp, assumption)
    then show ?thesis using p3 by (elim allE [of _ "PInt 87"]) simp
  qed
  have b: "\<exists>self. fst (init ''req'' sample_shotgun ?q) = Inr self \<and>
      entity_id self = PInt 5757 \<and> entity_ids self = PList (map PInt [5757, 12, 40])"
  proof -
    have prem: "(\<forall>k\<in>set required_params. map_of ?q k \<noteq> None) \<and>
        map_of ?q ''entity_ids'' = Some (PList record_selection) \<and>
        (record_selection = map PInt (5757 # [12, 40]) \<or>
         list_all2 (\<lambda>e j. \<exists>d. e = PDict d \<and> map_of d ''id'' = Some (PInt j))
           record_selection (5757 # [12, 40]))"
      by (intro conjI disjI2) (rule q1, rule q2, rule r)
    note t = entity_reference_normalization
            [where parameters = ?q and es = record_selection and j = 5757
               and js = "[12, 40]" and self_str = "''req''" and sg = sample_shotgun,
             THEN conjunct1, THEN mp, OF prem]
    note c = t [THEN conjunct2, THEN conjunct2, THEN conjunct1]
    have c1: "\<forall>project pid.
         map_of ?q ''project_id'' = Some PNone \<and>
         sample_shotgun (dict_get ?q ''entity_type'',
             PList [PList [PStr ''id'', PStr ''is'', PInt 5757]], PList [PStr ''project''])
           = Inr (PDict [(''project'', PDict [(''id'', PInt 87)])]) \<and>
         map_of [(''project'', PDict [(''id'', PInt 87)])] ''project'' = Some (PDict project) \<and>
         map_of project ''id'' = Some pid \<longrightarrow>
         (\<exists>self. fst (init ''req'' sample_shotgun ?q) = Inr self \<and>
            entity_id self = PInt 5757 \<and>
            entity_ids self = PList (map PInt (5757 # [12, 40])))"
      using c by (rule spec)
    have c2: "\<forall>pid.
         map_of ?q ''project_id'' = Some PNone \<and>
         sample_shotgun (dict_get ?q ''entity_type'',
             PList [PList [PStr ''id'', PStr ''is'', PInt 5757]], PList [PStr ''project''])
           = Inr (PDict [(''project'', PDict [(''id'', PInt 87)])]) \<and>
         map_of [(''project'', PDict [(''id'', PInt 87)])] ''project'' =
           Some (PDict [(''id'', PInt 87)]) \<and>
         map_of [(''id'', PInt 87)] ''id'' = Some pid \<longrightarrow>
         (\<exists>self. fst (init ''req'' sample_shotgun ?q) = Inr self \<and>
            entity_id self = PInt 5757 \<and>
            entity_ids self = PList (map PInt (5757 # [12, 40])))"
      using c1 by (rule spec)
    have c3: "map_of ?q ''project_id'' = Some PNone \<and>
         sample_shotgun (dict_get ?q ''entity_type'',
             PList [PList [PStr ''id'', PStr ''is'', PInt 5757]], PList [PStr ''project''])
           = Inr (PDict [(''project'', PDict [(''id'', PInt 87)])]) \<and>
         map_of [(''project'', PDict [(''id'', PInt 87)])] ''project'' =
           Some (PDict [(''id'', PInt 87)]) \<and>
         map_of [(''id'', PInt 87)] ''id'' = Some (PInt 87) \<longrightarrow>
         (\<exists>self. fst (init ''req'' sample_shotgun ?q) = Inr self \<and>
            entity_id self = PInt 5757 \<and>
            entity_ids self = PList (map PInt (5757 # [12, 40])))"
      using c2 by (rule spec)
    show ?thesis
      by (rule c3 [THEN mp]) (simp add: q3 q4 s)
  qed
  have lp: "list_all (\<lambda>k. map_of ?p k \<noteq> None) required_params"
    using p1 by (simp only: list_all_iff)
  have lq: "list_all (\<lambda>k. map_of ?q k \<noteq> None) required_params"
    using q1 by (simp only: list_all_iff)
  have a': "\<exists>self. init ''req'' sample_shotgun ?p = (Inr self, []) \<and>
      entity_id self = PInt 3 \<and> entity_ids self = PList [PInt 3, PInt 1, PInt 2]"
    using a by simp
  have b': "\<exists>self. fst (init ''req'' sample_shotgun ?q) = Inr self \<and>
      entity_id self = PInt 5757 \<and> entity_ids self = PList [PInt 5757, PInt 12, PInt 40]"
    using b by simp
  show ?thesis
    by (intro conjI) (rule lp p2 p3 a' lq q2 r q3 s b')+
qed

text \<open>
  C1, as the specification states it, fails where \<^verbatim>\<open>project_id\<close> is absent: the
  constructor has already raised the \<^verbatim>\<open>ValueError\<close> for the missing key, and the
  entity store is never called.
\<close>

theorem absent_project_id_counterexample:
  "map_of payload_without_project_id ''project_id'' = None \<and>
   init ''req'' sample_shotgun payload_without_project_id =
     (Inl (ValueError (missing_parameter ''req'' ''project_id'')), [])"
  by (simp add: init_def required_params_def payload_without_project_id_def)

text \<open>
  C1, amended. A payload without the key \<^verbatim>\<open>project_id\<close> is rejected with a
  \<^verbatim>\<open>ValueError\<close> and no call to the entity store. For a payload that has the six
  required keys and whose entity ids normalise to \<open>eid\<close> and \<open>eids\<close>: if
  \<^verbatim>\<open>project_id\<close> is \<^verbatim>\<open>None\<close>, the entity store is called exactly once, with the
  entity type, the filter \<^verbatim>\<open>[["id", "is", eid]]\<close> and the fields
  \<^verbatim>\<open>["project"]\<close>, and when it answers a record whose \<^verbatim>\<open>project\<close> has an
  \<^verbatim>\<open>id\<close> the request is built with that id as its project id; if
  \<^verbatim>\<open>project_id\<close> is any other value, \<open>0\<close> included, the entity store is not called
  and the request is built with the supplied value as its project id.
\<close>

theorem project_id_resolution:
  "(map_of parameters ''project_id'' = None \<longrightarrow>
      snd (init self_str sg parameters) = [] \<and>
      (\<exists>message. fst (init self_str sg parameters) = Inl (ValueError message))) \<and>
   ((\<forall>k\<in>set required_params. map_of parameters k \<noteq> None) \<and>
    entity_fields parameters = Inr (eid, eids) \<and>
    map_of parameters ''project_id'' = Some PNone \<longrightarrow>
      snd (init self_str sg parameters) =
        [(dict_get parameters ''entity_type'',
          PList [PList [PStr ''id'', PStr ''is'', eid]], PList [PStr ''project''])] \<and>
      (\<forall>d project pid.
         sg (dict_get parameters ''entity_type'',
             PList [PList [PStr ''id'', PStr ''is'', eid]], PList [PStr ''project''])
           = Inr (PDict d) \<and>
         map_of d ''project'' = Some (PDict project) \<and> map_of project ''id'' = Some pid \<longrightarrow>
         (\<exists>self. fst (init self_str sg parameters) = Inr self \<and> project_id self = pid \<and>
            entity_type self = dict_get parameters ''entity_type'' \<and>
            entity_id self = eid))) \<and>
   (\<forall>pid. (\<forall>k\<in>set required_params. map_of parameters k \<noteq> None) \<and>
      entity_fields parameters = Inr (eid, eids) \<and>
      map_of parameters ''project_id'' = Some pid \<and> pid \<noteq> PNone \<longrightarrow>
      snd (init self_str sg parameters) = [] \<and>
      (\<exists>self. fst (init self_str sg parameters) = Inr self \<and> project_id self = pid))"
proof (intro conjI impI allI)
  assume absent: "map_of parameters ''project_id'' = None"
  have "''project_id'' \<in> set required_params" by (simp add: required_params_def)
  with absent obtain k where
    "find (\<lambda>k. map_of parameters k = None) required_params = Some k"
    by (cases "find (\<lambda>k. map_of parameters k = None) required_params")
       (auto simp: find_None_iff)
  then have i: "init self_str sg parameters =
      (Inl (ValueError (missing_parameter self_str k)), [])"
    by (rule init_missing)
  show "snd (init self_str sg parameters) = []" using i by simp
  show "\<exists>message. fst (init self_str sg parameters) = Inl (ValueError message)"
    using i by simp
next
  assume h: "(\<forall>k\<in>set required_params. map_of parameters k \<noteq> None) \<and>
    entity_fields parameters = Inr (eid, eids) \<and>
    map_of parameters ''project_id'' = Some PNone"
  then show "snd (init self_str sg parameters) =
        [(dict_get parameters ''entity_type'',
          PList [PList [PStr ''id'', PStr ''is'', eid]], PList [PStr ''project''])]"
    by (simp add: init_lookup [where eid = eid and eids = eids])
next
  fix d project pid
  assume h: "(\<forall>k\<in>set required_params. map_of parameters k \<noteq> None) \<and>
    entity_fields parameters = Inr (eid, eids) \<and>
    map_of parameters ''project_id'' = Some PNone"
  assume a: "sg (dict_get parameters ''entity_type'',
             PList [PList [PStr ''id'', PStr ''is'', eid]], PList [PStr ''project''])
           = Inr (PDict d) \<and>
         map_of d ''project'' = Some (PDict project) \<and> map_of project ''id'' = Some pid"
  show "\<exists>self. fst (init self_str sg parameters) = Inr self \<and> project_id self = pid \<and>
            entity_type self = dict_get parameters ''entity_type'' \<and>
            entity_id self = eid"
    using h a by (simp add: init_lookup [where eid = eid and eids = eids])
next
  fix pid
  assume h: "(\<forall>k\<in>set required_params. map_of parameters k \<noteq> None) \<and>
      entity_fields parameters = Inr (eid, eids) \<and>
      map_of parameters ''project_id'' = Some pid \<and> pid \<noteq> PNone"
  then have i: "init self_str sg parameters =
    (Inr \<lparr> resolved_command = None, command_name = dict_get parameters ''name'',
           command_title = dict_get parameters ''title'',
           config_name = dict_get parameters ''pc'',
           entity_type = dict_get parameters ''entity_type'', entity_id = eid,
           entity_ids = eids, project_id = pid \<rparr>, [])"
    by (simp add: init_supplied)
  show "snd (init self_str sg parameters) = []" using i by simp
  show "\<exists>self. fst (init self_str sg parameters) = Inr self \<and> project_id self = pid"
    using i by simp
qed

theorem project_id_resolution_witness:
  "map_of payload_without_project_id ''project_id'' = None \<and>
   snd (init ''req'' sample_shotgun payload_without_project_id) = [] \<and>
   list_all (\<lambda>k. map_of my_tasks_payload k \<noteq> None) required_params \<and>
   entity_fields my_tasks_payload = Inr (PInt 5757, PList [PInt 5757]) \<and>
   map_of my_tasks_payload ''project_id'' = Some PNone \<and>
   sample_shotgun (PStr ''Task'', PList [PList [PStr ''id'', PStr ''is'', PInt 5757]],
       PList [PStr ''project'']) = Inr (PDict [(''project'', PDict [(''id'', PInt 87)])]) \<and>
   snd (init ''req'' sample_shotgun my_tasks_payload) =
     [(PStr ''Task'', PList [PList [PStr ''id'', PStr ''is'', PInt 5757]],
       PList [PStr ''project''])] \<and>
   (\<exists>self. fst (init ''req'' sample_shotgun my_tasks_payload) = Inr self \<and>
      project_id self = PInt 87) \<and>
   list_all (\<lambda>k. map_of (payload_with (PList [PInt 3]) (PInt 0)) k \<noteq> None)
     required_params \<and>
   entity_fields (payload_with (PList [PInt 3]) (PInt 0)) = Inr (PInt 3, PList [PInt 3]) \<and>
   map_of (payload_with (PList [PInt 3]) (PInt 0)) ''project_id'' = Some (PInt 0) \<and>
   snd (init ''req'' sample_shotgun (payload_with (PList [PInt 3]) (PInt 0))) = [] \<and>
   (\<exists>self. fst (init ''req'' sample_shotgun (payload_with (PList [PInt 3]) (PInt 0)))
        = Inr self \<and> project_id self = PInt 0)"
proof -
  have a: "map_of payload_without_project_id ''project_id'' = None"
    by (simp add: payload_without_project_id_def)
  have b: "list_all (\<lambda>k. map_of my_tasks_payload k \<noteq> None) required_params"
    "entity_fields my_tasks_payload = Inr (PInt 5757, PList [PInt 5757])"
    "map_of my_tasks_payload ''project_id'' = Some PNone"
    "dict_get my_tasks_payload ''entity_type'' = PStr ''Task''"
    by (simp_all add: my_tasks_payload_def required_params_def entity_fields_def dict_get_def)
  have c: "list_all (\<lambda>k. map_of (payload_with (PList [PInt 3]) (PInt 0)) k \<noteq> None)
     required_params"
    "entity_fields (payload_with (PList [PInt 3]) (PInt 0)) = Inr (PInt 3, PList [PInt 3])"
    "map_of (payload_with (PList [PInt 3]) (PInt 0)) ''project_id'' = Some (PInt 0)"
    by (simp_all add: payload_with_def required_params_def entity_fields_def)
  have s: "sample_shotgun (PStr ''Task'', PList [PList [PStr ''id'', PStr ''is'', PInt 5757]],
       PList [PStr ''project'']) = Inr (PDict [(''project'', PDict [(''id'', PInt 87)])])"
    by (simp add: sample_shotgun_def)
  show ?thesis
    using project_id_resolution
            [where parameters = payload_without_project_id and self_str = "''req''"
               and sg = sample_shotgun]
          project_id_resolution
            [where parameters = my_tasks_payload and self_str = "''req''"
               and sg = sample_shotgun and eid = "PInt 5757" and eids = "PList [PInt 5757]"]
          project_id_resolution
            [where parameters = "payload_with (PList [PInt 3]) (PInt 0)"
               and self_str = "''req''" and sg = sample_shotgun and eid = "PInt 3"
               and eids = "PList [PInt 3]"]
          a b c s
    by (auto simp: list_all_iff)
qed

subsection \<open>Resolution\<close>

text \<open>
  C2. When more than one catalog matches the request, \<^verbatim>\<open>execute_with_context\<close>
  binds the first matching command of the last matching catalog, in the order supplied,
  and starts one worker on the request so bound.
\<close>

theorem last_matching_catalog_wins:
  assumes "1 < length (filter (matches self) associated_commands)"
  shows "first_matching_command self (last (filter (matches self) associated_commands))
           \<noteq> None \<and>
         execute_with_context self_str self associated_commands =
           (Inr (self\<lparr>resolved_command :=
              first_matching_command self
                (last (filter (matches self) associated_commands))\<rparr>),
            [self\<lparr>resolved_command :=
              first_matching_command self
                (last (filter (matches self) associated_commands))\<rparr>])"
proof -
  have "filter (matches self) associated_commands \<noteq> []"
    using assms by auto
  then show ?thesis
    using execute_with_context_matched(1) [of self associated_commands]
      execute_with_context_matched(2) [of self associated_commands self_str]
    by simp
qed

lemma matches_two_primary_catalogs:
  "filter (matches sample_request) two_primary_catalogs =
     [catalog (Some ''Primary'') (Some [echo_command ''nuke'' ''first'' False]),
      catalog None
        (Some [echo_command ''maya'' ''other'' False, echo_command ''nuke'' ''second'' False,
               echo_command ''nuke'' ''third'' False])]"
  by (simp add: two_primary_catalogs_def matches_def sample_request_def catalog_def
        effective_name_def commands_or_empty_def echo_command_def)

theorem last_matching_catalog_wins_witness:
  "1 < length (filter (matches sample_request) two_primary_catalogs) \<and>
   execute_with_context ''req'' sample_request two_primary_catalogs =
     (Inr (sample_request\<lparr>resolved_command := Some (echo_command ''nuke'' ''second'' False)\<rparr>),
      [sample_request\<lparr>resolved_command := Some (echo_command ''nuke'' ''second'' False)\<rparr>])"
proof -
  have n: "1 < length (filter (matches sample_request) two_primary_catalogs)"
    by (simp add: matches_two_primary_catalogs)
  have f: "first_matching_command sample_request
             (last (filter (matches sample_request) two_primary_catalogs)) =
           Some (echo_command ''nuke'' ''second'' False)"
    unfolding matches_two_primary_catalogs
    by (simp add: first_matching_command_def catalog_def
          commands_or_empty_def sample_request_def echo_command_def)
  show ?thesis
    using last_matching_catalog_wins [OF n, where self_str = "''req''"] n f by simp
qed

text \<open>
  C3. A catalog whose configuration name is empty (\<^verbatim>\<open>None\<close> or \<^verbatim>\<open>""\<close>) has the
  effective name \<^verbatim>\<open>"Primary"\<close>: with that catalog alone, holding the single command
  \<open>cmdA\<close>, a request for the configuration \<^verbatim>\<open>"Primary"\<close> and \<open>cmdA\<close>'s system name
  resolves to \<open>cmdA\<close>.
\<close>

theorem empty_name_is_primary:
  assumes "pipeline_configuration_name (configuration cfg) = None \<or>
           pipeline_configuration_name (configuration cfg) = Some []"
    and "commands cfg = Some [cmdA]"
    and "config_name self = PStr ''Primary''"
    and "command_name self = PStr (system_name cmdA)"
  shows "effective_name cfg = ''Primary'' \<and>
         execute_with_context self_str self [cfg] =
           (Inr (self\<lparr>resolved_command := Some cmdA\<rparr>),
            [self\<lparr>resolved_command := Some cmdA\<rparr>])"
proof -
  have e: "effective_name cfg = ''Primary''"
    using assms(1) by (auto simp: effective_name_def)
  then show ?thesis
    using assms(2-4)
    by (simp add: execute_with_context_def commands_or_empty_def Let_def)
qed

theorem empty_name_is_primary_witness:
  "pipeline_configuration_name
     (configuration (catalog (Some []) (Some [echo_command ''nuke'' ''a'' False]))) = Some [] \<and>
   commands (catalog (Some []) (Some [echo_command ''nuke'' ''a'' False])) =
     Some [echo_command ''nuke'' ''a'' False] \<and>
   config_name sample_request = PStr ''Primary'' \<and>
   command_name sample_request = PStr (system_name (echo_command ''nuke'' ''a'' False)) \<and>
   execute_with_context ''req'' sample_request
       [catalog (Some []) (Some [echo_command ''nuke'' ''a'' False])] =
     (Inr (sample_request\<lparr>resolved_command := Some (echo_command ''nuke'' ''a'' False)\<rparr>),
      [sample_request\<lparr>resolved_command := Some (echo_command ''nuke'' ''a'' False)\<rparr>])"
  using empty_name_is_primary
          [where cfg = "catalog (Some []) (Some [echo_command ''nuke'' ''a'' False])"
             and cmdA = "echo_command ''nuke'' ''a'' False" and self = sample_request
             and self_str = "''req''"]
  by (simp add: catalog_def sample_request_def echo_command_def)

text \<open>
  C4. When no catalog matches a request whose command is still unset, as the constructor
  leaves it, \<^verbatim>\<open>execute_with_context\<close> raises the \<^verbatim>\<open>RuntimeError\<close>
  \<^verbatim>\<open>"Configuration mismatch!"\<close>; no worker has been started, so no \<^verbatim>\<open>_execute\<close>
  runs and no reply is sent.
\<close>

theorem no_match_configuration_mismatch:
  assumes "resolved_command self = None"
    and "\<forall>cfg\<in>set associated_commands. \<not> matches self cfg"
  shows "execute_with_context self_str self associated_commands =
           (Inl (RuntimeError (self_str @ '': Configuration mismatch!'')), []) \<and>
         map request_execute
           (snd (execute_with_context self_str self associated_commands)) = []"
proof -
  have "filter (matches self) associated_commands = []"
    using assms(2) by (simp add: filter_empty_conv)
  then show ?thesis
    using execute_with_context_unmatched [of self associated_commands self_str] assms(1)
    by simp
qed

theorem no_match_configuration_mismatch_witness:
  "resolved_command sample_request = None \<and>
   list_all (\<lambda>cfg. \<not> matches sample_request cfg) unmatched_catalogs \<and>
   execute_with_context ''req'' sample_request unmatched_catalogs =
     (Inl (RuntimeError ''req: Configuration mismatch!''), [])"
proof -
  have a: "resolved_command sample_request = None"
    by (simp add: sample_request_def)
  have b: "list_all (\<lambda>cfg. \<not> matches sample_request cfg) unmatched_catalogs"
    by (simp add: unmatched_catalogs_def matches_def sample_request_def catalog_def
          effective_name_def commands_or_empty_def echo_command_def)
  then have b': "\<forall>cfg\<in>set unmatched_catalogs. \<not> matches sample_request cfg"
    by (simp add: list_all_iff)
  show ?thesis
    using no_match_configuration_mismatch [OF a b', where self_str = "''req''"] a b by simp
qed

subsection \<open>Execution\<close>



text \<open>
  C8. An execution failure whose description contains the signature of the legacy
  engine is answered with status 1 and the fixed message asking for version v0.8.0 or
  above of the engine, which is not the description that was raised.
\<close>

theorem legacy_qt_failure_replaced:
  assumes "execution_fails self description"
    and "sublist qt_signature description"
  shows "snd (request_execute self) =
           Reply_with_status (Some 1) (Some upgrade_message) None \<and>
         upgrade_message \<noteq> description \<and>
         sublist ''version v0.8.0 or above of the engine'' upgrade_message"
proof -
  have "snd (request_execute self) = Reply_with_status (Some 1) (Some upgrade_message) None"
    using request_execute_fails [OF assms(1)] assms(2)
    by (simp add: reply_failure_def str_contains_sublist)
  moreover have "upgrade_message \<noteq> description"
    using assms(2) upgrade_message_no_signature by auto
  moreover have "sublist ''version v0.8.0 or above of the engine'' upgrade_message"
    by (simp add: str_contains_sublist [symmetric] upgrade_message_def)
  ultimately show ?thesis by simp
qed

theorem legacy_qt_failure_replaced_witness:
  "execution_fails
     (sample_request\<lparr>resolved_command := Some (failing_command ''nuke'' legacy_description)\<rparr>)
     legacy_description \<and>
   sublist qt_signature legacy_description \<and>
   snd (request_execute
     (sample_request\<lparr>resolved_command := Some (failing_command ''nuke'' legacy_description)\<rparr>))
     = Reply_with_status (Some 1) (Some upgrade_message) None"
proof -
  have a: "execution_fails
     (sample_request\<lparr>resolved_command := Some (failing_command ''nuke'' legacy_description)\<rparr>)
     legacy_description"
    by (simp add: execution_fails_def failing_command_def)
  have b: "sublist qt_signature legacy_description"
    by (simp add: legacy_description_def)
  show ?thesis using legacy_qt_failure_replaced [OF a b] a b by simp
qed

text \<open>
  C9. An execution failure whose description does not contain the signature is caught
  inside \<^verbatim>\<open>_execute\<close>, which answers with status 1 and the description itself as the
  error.
\<close>

theorem other_failure_passed_through:
  assumes "execution_fails self description"
    and "\<not> sublist qt_signature description"
  shows "snd (request_execute self) = Reply_with_status (Some 1) (Some description) None"
  using request_execute_fails [OF assms(1)] assms(2)
  by (simp add: reply_failure_def str_contains_sublist)

theorem other_failure_passed_through_witness:
  "execution_fails
     (sample_request\<lparr>resolved_command := Some (failing_command ''nuke'' ''boom'')\<rparr>) ''boom'' \<and>
   \<not> sublist qt_signature ''boom'' \<and>
   snd (request_execute
     (sample_request\<lparr>resolved_command := Some (failing_command ''nuke'' ''boom'')\<rparr>))
     = Reply_with_status (Some 1) (Some ''boom'') None"
proof -
  have a: "execution_fails
     (sample_request\<lparr>resolved_command := Some (failing_command ''nuke'' ''boom'')\<rparr>) ''boom''"
    by (simp add: execution_fails_def failing_command_def)
  have b: "\<not> sublist qt_signature ''boom''"
    by (simp add: str_contains_sublist [symmetric] qt_signature_def)
  show ?thesis using other_failure_passed_through [OF a b] a b by simp
qed

end
